theory Spec2Isabelle
  imports Complex_Main
begin

section \<open>The sampling and profiling job (jobs/build\_samples.py)\<close>

subsection \<open>Tables, lazy data frames and the engine's actions\<close>

text \<open>
  The job is written against a data-frame engine. A table has an ordered list of column
  names and a list of rows; a cell is \<open>None\<close> when it is null. The type of the cell
  values is left open. A file is identified with the table the engine's permissive reader
  makes of it: a file that yields no columns (an empty file) is a table without columns.
\<close>

type_synonym path = string

datatype fmt = JSON | CSV

datatype 'v table = Table (columns: "string list") (rows: "'v option list list")

text \<open>
  The exceptions of the engine that the job can meet, told apart by their cause:
  \<open>AnalysisException p\<close> is the reader's, for a path \<open>p\<close> that holds no file;
  \<open>EmptySchema\<close> is the writer's, for a frame without columns; \<open>CannotResolve c\<close> is
  raised for a column name that \<open>F.col\<close> cannot resolve; \<open>CorruptRecordQuery\<close> is raised
  for a query over a raw file that refers to the corrupt-record column alone.
\<close>

datatype error = AnalysisException path | EmptySchema | CannotResolve string | CorruptRecordQuery

text \<open>
  A data frame is lazy ("ainda Lazy, nada executou"): it is a plan, and every action
  (\<open>count\<close>, \<open>agg(...).collect()\<close>, \<open>write\<close>) runs the plan again on the files as
  they are at that moment. The reader fixes the column names when the frame is made;
  \<open>df.columns\<close> reads them off the plan. Running a plan is modelled as a function of the
  plan and the files, \<open>limit\<close> keeping the first rows. Whether the engine returns the
  same rows each time it runs a plan is a property of the engine, not of the job; no
  statement below is about two runs of a plan giving the same rows.
  \<open>Sample f s d\<close> is \<open>d.sample(withReplacement=False, fraction=f, seed=s)\<close> and
  \<open>Limit n d\<close> is \<open>d.limit(n)\<close>.
\<close>

datatype df = Read fmt path "string list" | Sample rat int df | Limit nat df

fun df_columns :: "df \<Rightarrow> string list" where
  "df_columns (Read fm p cs) = cs"
| "df_columns (Sample f s d) = df_columns d"
| "df_columns (Limit n d) = df_columns d"

text \<open>
  The engine's seeded generator is not part of the repository: it is a parameter, the
  decision to keep the row at a position, given the fraction and the seed.
\<close>

type_synonym sampler = "rat \<Rightarrow> int \<Rightarrow> nat \<Rightarrow> bool"

fun bernoulli :: "sampler \<Rightarrow> rat \<Rightarrow> int \<Rightarrow> nat \<Rightarrow> 'a list \<Rightarrow> 'a list" where
  "bernoulli k f s i [] = []"
| "bernoulli k f s i (r # rs) =
     (if k f s i then r # bernoulli k f s (Suc i) rs else bernoulli k f s (Suc i) rs)"

fun collect :: "sampler \<Rightarrow> (path \<Rightarrow> 'v table option) \<Rightarrow> df \<Rightarrow> error + 'v table" where
  "collect k fs (Read fm p cs) =
     (case fs p of None \<Rightarrow> Inl (AnalysisException p)
      | Some t \<Rightarrow> Inr (Table cs (rows t)))"
| "collect k fs (Sample f s d) =
     (case collect k fs d of Inl e \<Rightarrow> Inl e
      | Inr t \<Rightarrow> Inr (Table (columns t) (bernoulli k f s 0 (rows t))))"
| "collect k fs (Limit n d) =
     (case collect k fs d of Inl e \<Rightarrow> Inl e
      | Inr t \<Rightarrow> Inr (Table (columns t) (take n (rows t))))"

text \<open>
  \<open>spark.read...json(path)\<close> and \<open>csv.csv(path)\<close>: the path is checked and the
  columns are fixed when the frame is made, before any action.
\<close>

definition spark_read :: "(path \<Rightarrow> 'v table option) \<Rightarrow> fmt \<Rightarrow> path \<Rightarrow> error + df" where
  "spark_read fs fm p =
     (case fs p of None \<Rightarrow> Inl (AnalysisException p)
      | Some t \<Rightarrow> Inr (Read fm p (columns t)))"

text \<open>The cells of a column, by its name, once the engine has resolved the name.\<close>

definition col_values :: "'v table \<Rightarrow> string \<Rightarrow> 'v option list" where
  "col_values t c =
     map (\<lambda>r. case map_of (zip (columns t) r) c of None \<Rightarrow> None | Some v \<Rightarrow> v) (rows t)"

text \<open>\<open>F.count\<close> counts the non-null cells, \<open>F.countDistinct\<close> the different non-null values.\<close>

definition F_count :: "'v option list \<Rightarrow> int" where
  "F_count vs = int (length (filter (\<lambda>v. v \<noteq> None) vs))"

definition F_countDistinct :: "'v option list \<Rightarrow> int" where
  "F_countDistinct vs = int (length (remdups (filter (\<lambda>v. v \<noteq> None) vs)))"

definition df_count :: "sampler \<Rightarrow> (path \<Rightarrow> 'v table option) \<Rightarrow> df \<Rightarrow> error + int" where
  "df_count k fs d =
     (case collect k fs d of Inl e \<Rightarrow> Inl e | Inr t \<Rightarrow> Inr (int (length (rows t))))"

text \<open>
  \<open>F.col(c)\<close> against the columns of a frame. A dot in the name is read as access into
  a struct and a backtick opens a quoted name; the tables here are flat, so such a name,
  like a name that is no column, is not resolved and the engine raises.
\<close>

definition F_col :: "string list \<Rightarrow> string \<Rightarrow> error + string" where
  "F_col cols c =
     (if c \<in> set cols \<and> CHR ''.'' \<notin> set c \<and> CHR 0x60 \<notin> set c then Inr c
      else Inl (CannotResolve c))"

text \<open>
  \<open>df.agg(F.count(F.col(c)), F.countDistinct(F.col(c))).collect()[0]\<close>: the name is
  resolved when the query is built; a query that refers to \<open>_corrupt_record\<close> alone is
  refused; then the plan runs.
\<close>

definition df_agg :: "sampler \<Rightarrow> (path \<Rightarrow> 'v table option) \<Rightarrow> df \<Rightarrow> string \<Rightarrow> error + int \<times> int" where
  "df_agg k fs d c =
     (case F_col (df_columns d) c of Inl e \<Rightarrow> Inl e
      | Inr a \<Rightarrow>
          if a = ''_corrupt_record'' then Inl CorruptRecordQuery
          else (case collect k fs d of Inl e \<Rightarrow> Inl e
                | Inr t \<Rightarrow> Inr (F_count (col_values t a), F_countDistinct (col_values t a))))"

subsection \<open>The world: files and printed lines\<close>

datatype line = Header string int | ColLine string int int | Written path

record 'v world =
  files :: "path \<Rightarrow> 'v table option"
  stdout :: "line list"

definition print :: "line \<Rightarrow> 'v world \<Rightarrow> 'v world" where
  "print l w = w\<lparr>stdout := stdout w @ [l]\<rparr>"

text \<open>
  \<open>df.write.mode("overwrite").parquet(dest)\<close>: a frame without columns is refused
  before anything is touched. Otherwise the overwrite clears \<open>dest\<close> and the plan runs:
  a frame whose only column is the corrupt-record column is refused at that point, and so
  is a plan whose source has gone; else the result of the plan is what \<open>dest\<close> holds.
\<close>

definition write_parquet :: "sampler \<Rightarrow> 'v world \<Rightarrow> df \<Rightarrow> path \<Rightarrow> error option \<times> 'v world" where
  "write_parquet k w d dest =
     (if df_columns d = [] then (Some EmptySchema, w)
      else if df_columns d = [''_corrupt_record''] then
        (Some CorruptRecordQuery, w\<lparr>files := (files w)(dest := None)\<rparr>)
      else (case collect k (files w) d of
              Inl e \<Rightarrow> (Some e, w\<lparr>files := (files w)(dest := None)\<rparr>)
            | Inr t \<Rightarrow> (None, w\<lparr>files := (files w)(dest \<mapsto> t)\<rparr>)))"

subsection \<open>quick\_profile\<close>

text \<open>The slice \<open>xs[:k]\<close> of Python; a negative \<open>k\<close> counts from the end.\<close>

definition slice_to :: "int \<Rightarrow> 'a list \<Rightarrow> 'a list" where
  "slice_to k xs = (if 0 \<le> k then take (nat k) xs else take (length xs - nat (- k)) xs)"

text \<open>
  The body of the loop over the columns: the two aggregates, then the nulls by
  difference. It returns the three locals \<open>(non_null, distinct', nulls)\<close>.
\<close>

definition profile_column ::
  "sampler \<Rightarrow> (path \<Rightarrow> 'v table option) \<Rightarrow> df \<Rightarrow> int \<Rightarrow> string \<Rightarrow> error + int \<times> int \<times> int" where
  "profile_column k fs d n c =
     (case df_agg k fs d c of Inl e \<Rightarrow> Inl e
      | Inr (non_null, distinct') \<Rightarrow> Inr (non_null, distinct', n - non_null))"

fun profile_loop ::
  "sampler \<Rightarrow> 'v world \<Rightarrow> df \<Rightarrow> int \<Rightarrow> string list \<Rightarrow> error option \<times> 'v world" where
  "profile_loop k w d n [] = (None, w)"
| "profile_loop k w d n (c # cs) =
     (case profile_column k (files w) d n c of Inl e \<Rightarrow> (Some e, w)
      | Inr (non_null, distinct', nulls) \<Rightarrow>
          profile_loop k (print (ColLine c nulls distinct') w) d n cs)"

definition default_max_cols :: int where
  "default_max_cols = 10"

definition quick_profile ::
  "sampler \<Rightarrow> 'v world \<Rightarrow> df \<Rightarrow> string \<Rightarrow> int \<Rightarrow> error option \<times> 'v world" where
  "quick_profile k w d nm max_cols =
     (case df_count k (files w) d of Inl e \<Rightarrow> (Some e, w)
      | Inr n \<Rightarrow> profile_loop k (print (Header nm n) w) d n (slice_to max_cols (df_columns d)))"

subsection \<open>main\<close>

definition paths :: "string \<Rightarrow> path option" where
  "paths = map_of
     [(''order'', ''data/raw/order/order.json''),
      (''consumer'', ''data/raw/consumer/consumer.csv''),
      (''restaurant'', ''data/raw/restaurant/restaurant.csv''),
      (''ab_test'', ''data/raw/ab_test_ref/ab_test_ref.csv'')]"

definition frac :: rat where
  "frac = 1 / 100"

definition seed :: int where
  "seed = 42"

definition out_base :: path where
  "out_base = ''data/processed/samples''"

definition out_path :: "string \<Rightarrow> path" where
  "out_path nm = out_base @ ''/'' @ nm"

text \<open>One turn of the loop over \<open>samples.items()\<close>: cap, write, report, profile.\<close>

definition sample_step :: "sampler \<Rightarrow> 'v world \<Rightarrow> string \<times> df \<Rightarrow> error option \<times> 'v world" where
  "sample_step k w item =
     (case item of (nm, d0) \<Rightarrow>
        let d = Limit 100000 d0 in
        (case write_parquet k w d (out_path nm) of
           (Some e, w1) \<Rightarrow> (Some e, w1)
         | (None, w1) \<Rightarrow>
             quick_profile k (print (Written (out_path nm)) w1) d nm default_max_cols))"

fun samples_loop ::
  "sampler \<Rightarrow> 'v world \<Rightarrow> (string \<times> df) list \<Rightarrow> error option \<times> 'v world" where
  "samples_loop k w [] = (None, w)"
| "samples_loop k w (item # rest) =
     (case sample_step k w item of
        (Some e, w1) \<Rightarrow> (Some e, w1)
      | (None, w1) \<Rightarrow> samples_loop k w1 rest)"

definition main :: "sampler \<Rightarrow> 'v world \<Rightarrow> error option \<times> 'v world" where
  "main k w =
     (case spark_read (files w) JSON (the (paths ''order'')) of Inl e \<Rightarrow> (Some e, w)
      | Inr df_order \<Rightarrow>
     (case spark_read (files w) CSV (the (paths ''consumer'')) of Inl e \<Rightarrow> (Some e, w)
      | Inr df_consumer \<Rightarrow>
     (case spark_read (files w) CSV (the (paths ''restaurant'')) of Inl e \<Rightarrow> (Some e, w)
      | Inr df_restaurant \<Rightarrow>
     (case spark_read (files w) CSV (the (paths ''ab_test'')) of Inl e \<Rightarrow> (Some e, w)
      | Inr df_ab_test \<Rightarrow>
          samples_loop k w
            [(''order_sample'', Sample frac seed df_order),
             (''consumer_sample'', Sample frac seed df_consumer),
             (''restaurant_sample'', Sample frac seed df_restaurant),
             (''ab_test_sample'', Sample frac seed df_ab_test)]))))"

section \<open>The downloader (src/ingestao/download\_public\_data.py)\<close>

subsection \<open>The network and the local files\<close>

type_synonym url = string

type_synonym bytes = string

text \<open>
  What \<open>int(r.headers.get("content-length", 0))\<close> meets: no header (the default 0),
  a header that reads as an integer, or one on which \<open>int\<close> raises.
\<close>

datatype clen = Absent | Numeric int | Malformed

text \<open>
  A response: its status, its content-length header, the chunks that
  \<open>iter_content(chunk_size)\<close> yields, and whether the stream breaks after the last
  of them (the iterator raises) or ends.
\<close>

record response =
  status :: nat
  content_length :: clen
  iter_content :: "nat \<Rightarrow> bytes list"
  broken :: bool

datatype dl_error = ConnectionError url | HTTPError nat | ValueError | ChunkedEncodingError

datatype dl_line = Baixando string | Bar string int | Update nat | Salvo path

record dl_world =
  dl_files :: "path \<Rightarrow> bytes option"
  dl_out :: "dl_line list"

definition dl_print :: "dl_line \<Rightarrow> dl_world \<Rightarrow> dl_world" where
  "dl_print l w = w\<lparr>dl_out := dl_out w @ [l]\<rparr>"

text \<open>\<open>dest.name\<close>: the last component of a path.\<close>

definition path_name :: "path \<Rightarrow> string" where
  "path_name p = rev (takeWhile (\<lambda>c. c \<noteq> CHR ''/'') (rev p))"

text \<open>\<open>r.raise_for_status()\<close> raises on the statuses 400 to 599.\<close>

definition raise_for_status :: "response \<Rightarrow> dl_error option" where
  "raise_for_status r =
     (if 400 \<le> status r \<and> status r < 600 then Some (HTTPError (status r)) else None)"

text \<open>\<open>open(dest, "wb")\<close> creates the file or empties it; \<open>f.write\<close> appends.\<close>

definition open_wb :: "path \<Rightarrow> dl_world \<Rightarrow> dl_world" where
  "open_wb dest w = w\<lparr>dl_files := (dl_files w)(dest \<mapsto> [])\<rparr>"

definition f_write :: "path \<Rightarrow> bytes \<Rightarrow> dl_world \<Rightarrow> dl_world" where
  "f_write dest chunk w =
     w\<lparr>dl_files := (dl_files w)(dest \<mapsto>
          (case dl_files w dest of None \<Rightarrow> chunk | Some old \<Rightarrow> old @ chunk))\<rparr>"

subsection \<open>download\_file and main\<close>

fun write_chunks :: "dl_world \<Rightarrow> path \<Rightarrow> bytes list \<Rightarrow> dl_world" where
  "write_chunks w dest [] = w"
| "write_chunks w dest (chunk # cs) =
     write_chunks
       (if chunk \<noteq> [] then dl_print (Update (length chunk)) (f_write dest chunk w) else w)
       dest cs"

definition default_chunk_size :: nat where
  "default_chunk_size = 1024 * 1024"

text \<open>
  \<open>dest.parent.mkdir(parents=True, exist_ok=True)\<close> makes directories only; the map
  of files has none, so the call leaves the world as it is.
\<close>

definition download_file ::
  "(url \<Rightarrow> response option) \<Rightarrow> dl_world \<Rightarrow> url \<Rightarrow> path \<Rightarrow> nat \<Rightarrow> dl_error option \<times> dl_world" where
  "download_file net w u dest chunk_size =
     (case net u of None \<Rightarrow> (Some (ConnectionError u), w)
      | Some r \<Rightarrow>
     (case raise_for_status r of Some e \<Rightarrow> (Some e, w)
      | None \<Rightarrow>
     (case content_length r of Malformed \<Rightarrow> (Some ValueError, w)
      | cl \<Rightarrow>
          let total = (case cl of Numeric n \<Rightarrow> n | _ \<Rightarrow> 0);
              w1 = dl_print (Bar (path_name dest) total) w;
              w2 = open_wb dest w1;
              w3 = write_chunks w2 dest (iter_content r chunk_size)
          in (if broken r then Some ChunkedEncodingError else None, w3))))"

definition FILES :: "(string \<times> url) list" where
  "FILES =
     [(''consumer.csv.gz'',
       ''https://data-architect-test-source.s3-sa-east-1.amazonaws.com/consumer.csv.gz'')]"

definition raw_dir :: path where
  "raw_dir = ''data/raw''"

text \<open>The loop of \<open>main\<close> over \<open>FILES.items()\<close>, for any table of resources.\<close>

fun download_all ::
  "(url \<Rightarrow> response option) \<Rightarrow> dl_world \<Rightarrow> (string \<times> url) list \<Rightarrow> dl_error option \<times> dl_world" where
  "download_all net w [] = (None, w)"
| "download_all net w ((fname, u) # rest) =
     (let target = raw_dir @ ''/'' @ fname;
          w1 = dl_print (Baixando fname) w
      in case download_file net w1 u target default_chunk_size of
           (Some e, w2) \<Rightarrow> (Some e, w2)
         | (None, w2) \<Rightarrow> download_all net (dl_print (Salvo target) w2) rest)"

definition download_main :: "(url \<Rightarrow> response option) \<Rightarrow> dl_world \<Rightarrow> dl_error option \<times> dl_world" where
  "download_main net w = download_all net w FILES"

section \<open>Auxiliary notions for the statements\<close>

text \<open>The path a plan reads from.\<close>

fun src_path :: "df \<Rightarrow> path" where
  "src_path (Read fm p cs) = p"
| "src_path (Sample f s d) = src_path d"
| "src_path (Limit n d) = src_path d"


text \<open>
  The profile of a table as the specification words it: the row count, then for each of
  the analysed columns the nulls (rows less non-nulls) and the distinct non-null values.
\<close>

definition null_count :: "'v table \<Rightarrow> string \<Rightarrow> int" where
  "null_count t c = int (length (filter (\<lambda>v. v = None) (col_values t c)))"

definition non_null_count :: "'v table \<Rightarrow> string \<Rightarrow> int" where
  "non_null_count t c = int (length (filter (\<lambda>v. v \<noteq> None) (col_values t c)))"

definition distinct_count :: "'v table \<Rightarrow> string \<Rightarrow> int" where
  "distinct_count t c = int (card (set (col_values t c) - {None}))"

definition row_count :: "'v table \<Rightarrow> int" where
  "row_count t = int (length (rows t))"

definition spec_profile :: "'v table \<Rightarrow> string \<Rightarrow> nat \<Rightarrow> line list" where
  "spec_profile t nm K =
     Header nm (row_count t) #
     map (\<lambda>c. ColLine c (null_count t c) (distinct_count t c)) (take K (columns t))"

text \<open>The capped sample of a raw table, as \<open>main\<close> asks for it.\<close>

definition capped_sample :: "sampler \<Rightarrow> 'v table \<Rightarrow> 'v table" where
  "capped_sample k t = Table (columns t) (take 100000 (bernoulli k frac seed 0 (rows t)))"

text \<open>
  The column names on which the aggregate of the profiler goes through: a column of the
  frame, without dot or backtick in its name, other than the corrupt-record column. A
  table can be written and profiled by \<open>main\<close> when it has a column and the first ten
  are of that kind.
\<close>

definition analysable :: "string list \<Rightarrow> string \<Rightarrow> bool" where
  "analysable cols c \<longleftrightarrow>
     c \<in> set cols \<and> CHR ''.'' \<notin> set c \<and> CHR 0x60 \<notin> set c \<and> c \<noteq> ''_corrupt_record''"

definition profilable :: "'v table \<Rightarrow> bool" where
  "profilable t \<longleftrightarrow>
     columns t \<noteq> [] \<and> (\<forall>c \<in> set (take 10 (columns t)). analysable (columns t) c)"

section \<open>Example inputs\<close>

text \<open>
  A sampler that keeps every other row, three small tables (the one read from JSON has
  its columns in alphabetical order, as the reader infers them) and a world holding them.
\<close>

definition demo_sampler :: sampler where
  "demo_sampler f s i = even (s + int i)"

definition people :: "string table" where
  "people = Table [''id'', ''name'', ''age'']
     [[Some ''1'', Some ''ana'', Some ''30''],
      [Some ''2'', Some ''bob'', None],
      [Some ''3'', Some ''cy'', Some ''25'']]"

definition no_rows :: "string table" where
  "no_rows = Table [''id'', ''name''] []"

definition orders :: "string table" where
  "orders = Table [''amount'', ''order_id'']
     [[Some ''10'', Some ''a1''],
      [None, Some ''a2'']]"

definition demo_world :: "string world" where
  "demo_world =
     \<lparr>files = [''data/raw/order/order.json'' \<mapsto> orders,
               ''data/raw/consumer/consumer.csv'' \<mapsto> people,
               ''data/raw/restaurant/restaurant.csv'' \<mapsto> no_rows,
               ''data/raw/ab_test_ref/ab_test_ref.csv'' \<mapsto> people],
      stdout = []\<rparr>"

text \<open>A table of three rows whose two non-empty ages are equal, and a world holding it.\<close>

definition same_age :: "string table" where
  "same_age = Table [''id'', ''name'', ''age'']
     [[Some ''1'', Some ''ana'', Some ''30''],
      [Some ''2'', Some ''bob'', None],
      [Some ''3'', Some ''cy'', Some ''30'']]"

definition same_age_world :: "string world" where
  "same_age_world =
     \<lparr>files = [''data/raw/consumer/consumer.csv'' \<mapsto> same_age], stdout = []\<rparr>"



definition empty_json_world :: "string world" where
  "empty_json_world =
     \<lparr>files = [''data/raw/order/order.json'' \<mapsto> Table [] [],
               ''data/raw/consumer/consumer.csv'' \<mapsto> people,
               ''data/raw/restaurant/restaurant.csv'' \<mapsto> no_rows,
               ''data/raw/ab_test_ref/ab_test_ref.csv'' \<mapsto> people],
      stdout = []\<rparr>"



text \<open>A world in which the first raw file is missing and the other three are there.\<close>

definition no_order_world :: "string world" where
  "no_order_world =
     \<lparr>files = [''data/raw/consumer/consumer.csv'' \<mapsto> people,
               ''data/raw/restaurant/restaurant.csv'' \<mapsto> no_rows,
               ''data/raw/ab_test_ref/ab_test_ref.csv'' \<mapsto> people],
      stdout = []\<rparr>"

text \<open>
  For the downloader: the address of the one resource of the table, three responses,
  three networks and two states of the local files.
\<close>

definition consumer_url :: url where
  "consumer_url =
     ''https://data-architect-test-source.s3-sa-east-1.amazonaws.com/consumer.csv.gz''"

definition not_found :: response where
  "not_found = \<lparr>status = 404, content_length = Absent, iter_content = (\<lambda>n. []), broken = False\<rparr>"

definition not_modified :: response where
  "not_modified = \<lparr>status = 304, content_length = Absent, iter_content = (\<lambda>n. []), broken = False\<rparr>"

definition cut_off :: response where
  "cut_off = \<lparr>status = 200, content_length = Numeric 6,
     iter_content = (\<lambda>n. [''abc'']), broken = True\<rparr>"

definition net_404 :: "url \<Rightarrow> response option" where
  "net_404 u = (if u = consumer_url then Some not_found else None)"

definition net_304 :: "url \<Rightarrow> response option" where
  "net_304 u = (if u = consumer_url then Some not_modified else None)"

definition net_cut :: "url \<Rightarrow> response option" where
  "net_cut u = (if u = consumer_url then Some cut_off else None)"

definition dl_empty :: dl_world where
  "dl_empty = \<lparr>dl_files = Map.empty, dl_out = []\<rparr>"

definition dl_old :: dl_world where
  "dl_old = \<lparr>dl_files = [''data/raw/consumer.csv.gz'' \<mapsto> ''previous''], dl_out = []\<rparr>"

section \<open>Properties of the sampling and profiling job\<close>

subsection \<open>Auxiliary lemmas\<close>

lemma bernoulli_length: "length (bernoulli k f s i xs) \<le> length xs"
  by (induction xs arbitrary: i) (auto simp: le_SucI)

lemma collect_columns: "collect k fs d = Inr t \<Longrightarrow> columns t = df_columns d"
  by (induction d arbitrary: t) (auto split: option.splits sum.splits)

lemma collect_frame: "src_path d \<noteq> p \<Longrightarrow> collect k (fs(p := x)) d = collect k fs d"
  by (induction d) auto

lemma collect_limit_length: "collect k fs (Limit n d) = Inr t \<Longrightarrow> length (rows t) \<le> n"
  by (auto split: sum.splits)

lemma collect_sample_length:
  assumes "collect k fs d = Inr raw" and "collect k fs (Limit n (Sample f s d)) = Inr t"
  shows "length (rows t) \<le> min n (length (rows raw))"
  using assms bernoulli_length[of k f s 0 "rows raw"] by auto

lemma profile_counts:
  "int (length vs) - F_count vs = int (length (filter (\<lambda>v. v = None) vs))"
  unfolding F_count_def by (induction vs) auto

lemma distinct_counts:
  "F_countDistinct vs = int (card (set vs - {None}))"
proof -
  have "set (filter (\<lambda>v. v \<noteq> None) vs) = set vs - {None}" by auto
  then show ?thesis unfolding F_countDistinct_def
    by (metis length_remdups_card_conv)
qed

lemma df_agg_ok:
  assumes "collect k fs d = Inr t" and "analysable (columns t) c"
  shows "df_agg k fs d c = Inr (F_count (col_values t c), F_countDistinct (col_values t c))"
  using assms collect_columns[OF assms(1)]
  by (simp add: df_agg_def F_col_def analysable_def)

lemma profile_column_exact:
  assumes "collect k fs d = Inr t" and "analysable (columns t) c"
  shows "profile_column k fs d (row_count t) c =
      Inr (non_null_count t c, distinct_count t c, null_count t c)"
proof -
  have len: "length (col_values t c) = length (rows t)" by (simp add: col_values_def)
  show ?thesis
    using df_agg_ok[OF assms] profile_counts[of "col_values t c"]
    by (simp add: profile_column_def row_count_def null_count_def
        non_null_count_def distinct_count_def distinct_counts F_count_def len)
qed

lemma profile_loop_ok:
  "collect k (files w) d = Inr t \<Longrightarrow> \<forall>c \<in> set cs. analysable (columns t) c \<Longrightarrow>
   profile_loop k w d (row_count t) cs =
     (None, w\<lparr>stdout := stdout w @ map (\<lambda>c. ColLine c (null_count t c) (distinct_count t c)) cs\<rparr>)"
proof (induction cs arbitrary: w)
  case Nil
  then show ?case by simp
next
  case (Cons c cs)
  have a: "analysable (columns t) c" using Cons.prems(2) by simp
  have pc: "profile_column k (files w) d (row_count t) c =
      Inr (non_null_count t c, distinct_count t c, null_count t c)"
    by (rule profile_column_exact[OF Cons.prems(1) a])
  have c: "collect k (files (print (ColLine c (null_count t c) (distinct_count t c)) w)) d = Inr t"
    using Cons.prems(1) by (simp add: print_def)
  have r: "\<forall>c \<in> set cs. analysable (columns t) c" using Cons.prems(2) by simp
  from Cons.IH[OF c r] pc show ?case by (simp add: print_def)
qed


lemma profile_loop_files: "files (snd (profile_loop k w d n cs)) = files w"
proof (induction cs arbitrary: w)
  case Nil
  then show ?case by simp
next
  case (Cons c cs)
  show ?case
  proof (cases "profile_column k (files w) d n c")
    case (Inl e)
    then show ?thesis by simp
  next
    case (Inr r)
    obtain a b x where r: "r = (a, b, x)" by (cases r)
    have "files (snd (profile_loop k (print (ColLine c x b) w) d n cs)) =
        files (print (ColLine c x b) w)"
      by (rule Cons.IH)
    then show ?thesis using Inr r by (simp add: print_def)
  qed
qed

lemma quick_profile_files: "files (snd (quick_profile k w d nm K)) = files w"
proof (cases "df_count k (files w) d")
  case (Inl e)
  then show ?thesis by (simp add: quick_profile_def)
next
  case (Inr n)
  have "files (snd (profile_loop k (print (Header nm n) w) d n (slice_to K (df_columns d)))) =
      files (print (Header nm n) w)"
    by (rule profile_loop_files)
  then show ?thesis using Inr by (simp add: quick_profile_def print_def)
qed

lemma quick_profile_ok:
  assumes "collect k (files w) d = Inr t" and "0 \<le> K"
    and "\<forall>c \<in> set (take (nat K) (columns t)). analysable (columns t) c"
  shows "quick_profile k w d nm K = (None, w\<lparr>stdout := stdout w @ spec_profile t nm (nat K)\<rparr>)"
proof -
  have c: "collect k (files (print (Header nm (row_count t)) w)) d = Inr t"
    using assms(1) by (simp add: print_def)
  have cols: "df_columns d = columns t" using collect_columns[OF assms(1)] by simp
  show ?thesis
    using assms(1,2) profile_loop_ok[OF c assms(3)]
    by (simp add: quick_profile_def df_count_def row_count_def[symmetric] cols slice_to_def
        spec_profile_def print_def)
qed

lemma write_parquet_some:
  assumes "files (snd (write_parquet k w d dest)) q = Some t"
  shows "files w q = Some t \<or> (q = dest \<and> collect k (files w) d = Inr t)"
proof (cases "df_columns d = [] \<or> df_columns d = [''_corrupt_record'']")
  case True
  then show ?thesis
    using assms by (auto simp: write_parquet_def split: if_splits)
next
  case False
  show ?thesis
  proof (cases "collect k (files w) d")
    case (Inl e)
    then show ?thesis using assms False by (auto simp: write_parquet_def split: if_splits)
  next
    case (Inr r)
    then show ?thesis using assms False by (auto simp: write_parquet_def split: if_splits)
  qed
qed

lemma sample_step_some:
  assumes "files (snd (sample_step k w (nm, d0))) q = Some t"
  shows "files w q = Some t \<or> (q = out_path nm \<and> collect k (files w) (Limit 100000 d0) = Inr t)"
proof (cases "write_parquet k w (Limit 100000 d0) (out_path nm)")
  case (Pair e w1)
  have w1: "w1 = snd (write_parquet k w (Limit 100000 d0) (out_path nm))" using Pair by simp
  have "files (snd (sample_step k w (nm, d0))) = files w1"
  proof (cases e)
    case (Some x)
    then have "sample_step k w (nm, d0) = (Some x, w1)"
      using Pair by (simp add: sample_step_def)
    then show ?thesis by simp
  next
    case None
    then have s: "sample_step k w (nm, d0) =
        quick_profile k (print (Written (out_path nm)) w1) (Limit 100000 d0) nm default_max_cols"
      using Pair by (simp add: sample_step_def)
    show ?thesis unfolding s by (simp add: quick_profile_files print_def)
  qed
  then have "files w1 q = Some t" using assms by simp
  then show ?thesis unfolding w1 by (rule write_parquet_some)
qed

lemma samples_loop_capped:
  "files (snd (samples_loop k w items)) q = Some t \<Longrightarrow>
   files w q = Some t \<or> length (rows t) \<le> 100000"
proof (induction items arbitrary: w)
  case Nil
  then show ?case by simp
next
  case (Cons item items)
  obtain nm d0 where item: "item = (nm, d0)" by (cases item)
  obtain e w1 where s: "sample_step k w (nm, d0) = (e, w1)" by (cases "sample_step k w (nm, d0)")
  have step: "files w q = Some t \<or> length (rows t) \<le> 100000" if "files w1 q = Some t"
  proof -
    from that s have "files (snd (sample_step k w (nm, d0))) q = Some t" by simp
    from sample_step_some[OF this] show ?thesis
      using collect_limit_length[of k "files w" 100000 d0 t] by blast
  qed
  show ?case
  proof (cases e)
    case (Some x)
    then have "samples_loop k w (item # items) = (Some x, w1)" using item s by simp
    then show ?thesis using step Cons.prems by simp
  next
    case None
    then have l: "samples_loop k w (item # items) = samples_loop k w1 items" using item s by simp
    from Cons.prems have "files (snd (samples_loop k w1 items)) q = Some t" unfolding l .
    from Cons.IH[OF this] step show ?thesis by blast
  qed
qed

lemma main_capped:
  assumes "files (snd (main k w)) q = Some t"
  shows "files w q = Some t \<or> length (rows t) \<le> 100000"
proof (cases "spark_read (files w) JSON (the (paths ''order''))")
  case (Inl e)
  then show ?thesis using assms by (simp add: main_def)
next
  case a: (Inr d1)
  show ?thesis
  proof (cases "spark_read (files w) CSV (the (paths ''consumer''))")
    case (Inl e)
    then show ?thesis using a assms by (simp add: main_def)
  next
    case b: (Inr d2)
    show ?thesis
    proof (cases "spark_read (files w) CSV (the (paths ''restaurant''))")
      case (Inl e)
      then show ?thesis using a b assms by (simp add: main_def)
    next
      case c: (Inr d3)
      show ?thesis
      proof (cases "spark_read (files w) CSV (the (paths ''ab_test''))")
        case (Inl e)
        then show ?thesis using a b c assms by (simp add: main_def)
      next
        case d: (Inr d4)
        have m: "main k w = samples_loop k w
            [(''order_sample'', Sample frac seed d1),
             (''consumer_sample'', Sample frac seed d2),
             (''restaurant_sample'', Sample frac seed d3),
             (''ab_test_sample'', Sample frac seed d4)]"
          using a b c d by (simp add: main_def del: samples_loop.simps)
        from assms show ?thesis unfolding m by (rule samples_loop_capped)
      qed
    qed
  qed
qed

lemma profilable_columns:
  assumes "profilable t"
  shows "columns t \<noteq> [] \<and> columns t \<noteq> [''_corrupt_record'']"
proof -
  from assms obtain c cs where c: "columns t = c # cs"
    by (cases "columns t") (simp_all add: profilable_def)
  then have "c \<in> set (take 10 (columns t))" by simp
  then have "analysable (columns t) c" using assms by (simp add: profilable_def)
  then have "c \<noteq> ''_corrupt_record''" by (simp add: analysable_def)
  then show ?thesis using c by simp
qed

lemma sample_step_ok:
  assumes "collect k (files w) (Limit 100000 d0) = Inr t" and "src_path d0 \<noteq> out_path nm"
    and "profilable t"
  shows "sample_step k w (nm, d0) =
    (None, w\<lparr>files := (files w)(out_path nm \<mapsto> t),
             stdout := stdout w @ Written (out_path nm) # spec_profile t nm 10\<rparr>)"
proof -
  let ?w1 = "w\<lparr>files := (files w)(out_path nm \<mapsto> t)\<rparr>"
  have cols: "df_columns (Limit 100000 d0) = columns t"
    using collect_columns[OF assms(1)] by simp
  have wr: "write_parquet k w (Limit 100000 d0) (out_path nm) = (None, ?w1)"
    using assms(1) cols profilable_columns[OF assms(3)]
    by (simp add: write_parquet_def del: df_columns.simps)
  have c: "collect k (files (print (Written (out_path nm)) ?w1)) (Limit 100000 d0) = Inr t"
    using assms(1,2) collect_frame[of "Limit 100000 d0" "out_path nm" k "files w" "Some t"]
    by (simp add: print_def)
  have k10: "(0::int) \<le> 10" by simp
  have an: "\<forall>c \<in> set (take (nat 10) (columns t)). analysable (columns t) c"
    using assms(3) by (simp add: profilable_def)
  from quick_profile_ok[OF c k10 an, of nm] wr show ?thesis
    by (simp add: sample_step_def default_max_cols_def print_def del: df_columns.simps)
qed

lemma collect_main_plan:
  "fs p = Some t \<Longrightarrow>
   collect k fs (Limit 100000 (Sample frac seed (Read fm p (columns t)))) = Inr (capped_sample k t)"
  by (simp add: capped_sample_def)

lemma profilable_capped: "profilable t \<Longrightarrow> profilable (capped_sample k t)"
  by (simp add: profilable_def capped_sample_def)

lemma capped_rows: "length (rows (capped_sample k t)) \<le> min 100000 (length (rows t))"
  using bernoulli_length[of k frac seed 0 "rows t"] by (simp add: capped_sample_def)

lemma main_result:
  assumes "files w ''data/raw/order/order.json'' = Some t1"
    and "files w ''data/raw/consumer/consumer.csv'' = Some t2"
    and "files w ''data/raw/restaurant/restaurant.csv'' = Some t3"
    and "files w ''data/raw/ab_test_ref/ab_test_ref.csv'' = Some t4"
    and "profilable t1" and "profilable t2" and "profilable t3" and "profilable t4"
  shows "main k w =
    (None, w\<lparr>files := (files w)
               (out_path ''order_sample'' \<mapsto> capped_sample k t1,
                out_path ''consumer_sample'' \<mapsto> capped_sample k t2,
                out_path ''restaurant_sample'' \<mapsto> capped_sample k t3,
                out_path ''ab_test_sample'' \<mapsto> capped_sample k t4),
             stdout := stdout w
               @ Written (out_path ''order_sample'') # spec_profile (capped_sample k t1) ''order_sample'' 10
               @ Written (out_path ''consumer_sample'') # spec_profile (capped_sample k t2) ''consumer_sample'' 10
               @ Written (out_path ''restaurant_sample'') # spec_profile (capped_sample k t3) ''restaurant_sample'' 10
               @ Written (out_path ''ab_test_sample'') # spec_profile (capped_sample k t4) ''ab_test_sample'' 10\<rparr>)"
proof -
  let ?d1 = "Sample frac seed (Read JSON ''data/raw/order/order.json'' (columns t1))"
  let ?d2 = "Sample frac seed (Read CSV ''data/raw/consumer/consumer.csv'' (columns t2))"
  let ?d3 = "Sample frac seed (Read CSV ''data/raw/restaurant/restaurant.csv'' (columns t3))"
  let ?d4 = "Sample frac seed (Read CSV ''data/raw/ab_test_ref/ab_test_ref.csv'' (columns t4))"
  let ?w1 = "w\<lparr>files := (files w)(out_path ''order_sample'' \<mapsto> capped_sample k t1),
      stdout := stdout w @ Written (out_path ''order_sample'') # spec_profile (capped_sample k t1) ''order_sample'' 10\<rparr>"
  let ?w2 = "?w1\<lparr>files := (files ?w1)(out_path ''consumer_sample'' \<mapsto> capped_sample k t2),
      stdout := stdout ?w1 @ Written (out_path ''consumer_sample'') # spec_profile (capped_sample k t2) ''consumer_sample'' 10\<rparr>"
  let ?w3 = "?w2\<lparr>files := (files ?w2)(out_path ''restaurant_sample'' \<mapsto> capped_sample k t3),
      stdout := stdout ?w2 @ Written (out_path ''restaurant_sample'') # spec_profile (capped_sample k t3) ''restaurant_sample'' 10\<rparr>"
  let ?w4 = "?w3\<lparr>files := (files ?w3)(out_path ''ab_test_sample'' \<mapsto> capped_sample k t4),
      stdout := stdout ?w3 @ Written (out_path ''ab_test_sample'') # spec_profile (capped_sample k t4) ''ab_test_sample'' 10\<rparr>"
  note p1 = profilable_capped[OF assms(5), of k]
  note p2 = profilable_capped[OF assms(6), of k]
  note p3 = profilable_capped[OF assms(7), of k]
  note p4 = profilable_capped[OF assms(8), of k]
  have m: "main k w = samples_loop k w
     [(''order_sample'', ?d1), (''consumer_sample'', ?d2),
      (''restaurant_sample'', ?d3), (''ab_test_sample'', ?d4)]"
    using assms(1-4) by (simp add: main_def spark_read_def paths_def)
  have c1: "collect k (files w) (Limit 100000 ?d1) = Inr (capped_sample k t1)"
    using assms(1) by (rule collect_main_plan)
  have n1: "src_path ?d1 \<noteq> out_path ''order_sample''"
    by (simp add: out_path_def out_base_def)
  have s1: "sample_step k w (''order_sample'', ?d1) = (None, ?w1)"
    by (rule sample_step_ok[OF c1 n1 p1])
  have f2: "files ?w1 ''data/raw/consumer/consumer.csv'' = Some t2"
    using assms(2) by (simp add: out_path_def out_base_def)
  have c2: "collect k (files ?w1) (Limit 100000 ?d2) = Inr (capped_sample k t2)"
    using f2 by (rule collect_main_plan)
  have n2: "src_path ?d2 \<noteq> out_path ''consumer_sample''"
    by (simp add: out_path_def out_base_def)
  have s2: "sample_step k ?w1 (''consumer_sample'', ?d2) = (None, ?w2)"
    by (rule sample_step_ok[OF c2 n2 p2])
  have f3: "files ?w2 ''data/raw/restaurant/restaurant.csv'' = Some t3"
    using assms(3) by (simp add: out_path_def out_base_def)
  have c3: "collect k (files ?w2) (Limit 100000 ?d3) = Inr (capped_sample k t3)"
    using f3 by (rule collect_main_plan)
  have n3: "src_path ?d3 \<noteq> out_path ''restaurant_sample''"
    by (simp add: out_path_def out_base_def)
  have s3: "sample_step k ?w2 (''restaurant_sample'', ?d3) = (None, ?w3)"
    by (rule sample_step_ok[OF c3 n3 p3])
  have f4: "files ?w3 ''data/raw/ab_test_ref/ab_test_ref.csv'' = Some t4"
    using assms(4) by (simp add: out_path_def out_base_def)
  have c4: "collect k (files ?w3) (Limit 100000 ?d4) = Inr (capped_sample k t4)"
    using f4 by (rule collect_main_plan)
  have n4: "src_path ?d4 \<noteq> out_path ''ab_test_sample''"
    by (simp add: out_path_def out_base_def)
  have s4: "sample_step k ?w3 (''ab_test_sample'', ?d4) = (None, ?w4)"
    by (rule sample_step_ok[OF c4 n4 p4])
  have "main k w = (None, ?w4)"
    unfolding m by (simp only: samples_loop.simps s1 s2 s3 s4 prod.case option.case)
  then show ?thesis by simp
qed

lemma main_abort:
  assumes "files w ''data/raw/order/order.json'' = None \<or>
    files w ''data/raw/consumer/consumer.csv'' = None \<or>
    files w ''data/raw/restaurant/restaurant.csv'' = None \<or>
    files w ''data/raw/ab_test_ref/ab_test_ref.csv'' = None"
  shows "\<exists>p \<in> {''data/raw/order/order.json'', ''data/raw/consumer/consumer.csv'',
       ''data/raw/restaurant/restaurant.csv'', ''data/raw/ab_test_ref/ab_test_ref.csv''}.
     files w p = None \<and> main k w = (Some (AnalysisException p), w)"
  using assms
  by (cases "files w ''data/raw/order/order.json''";
      cases "files w ''data/raw/consumer/consumer.csv''";
      cases "files w ''data/raw/restaurant/restaurant.csv''";
      cases "files w ''data/raw/ab_test_ref/ab_test_ref.csv''")
     (simp_all add: main_def spark_read_def paths_def)

lemma profilable_examples: "profilable people" "profilable no_rows" "profilable orders"
  by (simp_all add: profilable_def analysable_def people_def no_rows_def orders_def)

lemma two_values:
  assumes "length (xs :: 'a list) = 2"
  shows "int (card (set xs)) = (if distinct xs then 2 else 1)"
proof -
  from assms obtain a b where "xs = [a, b]"
    by (cases xs; cases "tl xs") auto
  then show ?thesis by auto
qed

lemma spec_profile_empty:
  "spec_profile (Table cs []) nm K = Header nm 0 # map (\<lambda>c. ColLine c 0 0) (take K cs)"
  by (simp add: spec_profile_def row_count_def null_count_def distinct_count_def col_values_def)

subsection \<open>The cap\<close>

text \<open>
  C1. A run of \<open>main\<close> may stop with an exception at any dataset. Whatever the raw files
  hold and however the run ends, every table found at a path afterwards was there before
  the run or has at most 100000 rows. For every cap \<open>C\<close>, every table found at a path
  after the write of \<open>limit(C)\<close> of a frame, failed or not, was there before or has at
  most \<open>C\<close> rows; and the capped sample of a raw table has at most \<open>min C |raw|\<close>
  rows. When the four raw tables are there and can be written and profiled, the run
  succeeds and each of the four artifacts has at most \<open>min 100000 |raw|\<close> rows.
\<close>

theorem cap_invariant:
  "(files (snd (main k w)) q = Some t \<longrightarrow> files w q = Some t \<or> length (rows t) \<le> 100000)
   \<and> (files (snd (write_parquet k v (Limit C d) dest)) q' = Some t' \<longrightarrow>
        files v q' = Some t' \<or> length (rows t') \<le> C)
   \<and> (collect k fs d0 = Inr raw \<and> collect k fs (Limit C (Sample f s d0)) = Inr smp \<longrightarrow>
        length (rows smp) \<le> min C (length (rows raw)))
   \<and> (files w ''data/raw/order/order.json'' = Some t1 \<and>
      files w ''data/raw/consumer/consumer.csv'' = Some t2 \<and>
      files w ''data/raw/restaurant/restaurant.csv'' = Some t3 \<and>
      files w ''data/raw/ab_test_ref/ab_test_ref.csv'' = Some t4 \<and>
      profilable t1 \<and> profilable t2 \<and> profilable t3 \<and> profilable t4 \<longrightarrow>
      (\<exists>w' s1 s2 s3 s4. main k w = (None, w') \<and>
         files w' (out_path ''order_sample'') = Some s1 \<and>
         files w' (out_path ''consumer_sample'') = Some s2 \<and>
         files w' (out_path ''restaurant_sample'') = Some s3 \<and>
         files w' (out_path ''ab_test_sample'') = Some s4 \<and>
         length (rows s1) \<le> min 100000 (length (rows t1)) \<and>
         length (rows s2) \<le> min 100000 (length (rows t2)) \<and>
         length (rows s3) \<le> min 100000 (length (rows t3)) \<and>
         length (rows s4) \<le> min 100000 (length (rows t4))))"
proof (intro conjI impI)
  assume "files (snd (main k w)) q = Some t"
  then show "files w q = Some t \<or> length (rows t) \<le> 100000"
    by (rule main_capped)
next
  assume "files (snd (write_parquet k v (Limit C d) dest)) q' = Some t'"
  from write_parquet_some[OF this]
  show "files v q' = Some t' \<or> length (rows t') \<le> C"
    using collect_limit_length[of k "files v" C d t'] by blast
next
  assume "collect k fs d0 = Inr raw \<and> collect k fs (Limit C (Sample f s d0)) = Inr smp"
  then show "length (rows smp) \<le> min C (length (rows raw))"
    using collect_sample_length[of k fs d0 raw C f s smp] by blast
next
  assume a: "files w ''data/raw/order/order.json'' = Some t1 \<and>
      files w ''data/raw/consumer/consumer.csv'' = Some t2 \<and>
      files w ''data/raw/restaurant/restaurant.csv'' = Some t3 \<and>
      files w ''data/raw/ab_test_ref/ab_test_ref.csv'' = Some t4 \<and>
      profilable t1 \<and> profilable t2 \<and> profilable t3 \<and> profilable t4"
  let ?w' = "snd (main k w)"
  have m: "main k w = (None, w\<lparr>files := (files w)
               (out_path ''order_sample'' \<mapsto> capped_sample k t1,
                out_path ''consumer_sample'' \<mapsto> capped_sample k t2,
                out_path ''restaurant_sample'' \<mapsto> capped_sample k t3,
                out_path ''ab_test_sample'' \<mapsto> capped_sample k t4),
             stdout := stdout w
               @ Written (out_path ''order_sample'') # spec_profile (capped_sample k t1) ''order_sample'' 10
               @ Written (out_path ''consumer_sample'') # spec_profile (capped_sample k t2) ''consumer_sample'' 10
               @ Written (out_path ''restaurant_sample'') # spec_profile (capped_sample k t3) ''restaurant_sample'' 10
               @ Written (out_path ''ab_test_sample'') # spec_profile (capped_sample k t4) ''ab_test_sample'' 10\<rparr>)"
    using a by (intro main_result) simp_all
  have e: "main k w = (None, ?w')" unfolding m by simp
  have f1: "files ?w' (out_path ''order_sample'') = Some (capped_sample k t1)"
    unfolding m by (simp add: out_path_def)
  have f2: "files ?w' (out_path ''consumer_sample'') = Some (capped_sample k t2)"
    unfolding m by (simp add: out_path_def)
  have f3: "files ?w' (out_path ''restaurant_sample'') = Some (capped_sample k t3)"
    unfolding m by (simp add: out_path_def)
  have f4: "files ?w' (out_path ''ab_test_sample'') = Some (capped_sample k t4)"
    unfolding m by (simp add: out_path_def)
  show "\<exists>w' s1 s2 s3 s4. main k w = (None, w') \<and>
         files w' (out_path ''order_sample'') = Some s1 \<and>
         files w' (out_path ''consumer_sample'') = Some s2 \<and>
         files w' (out_path ''restaurant_sample'') = Some s3 \<and>
         files w' (out_path ''ab_test_sample'') = Some s4 \<and>
         length (rows s1) \<le> min 100000 (length (rows t1)) \<and>
         length (rows s2) \<le> min 100000 (length (rows t2)) \<and>
         length (rows s3) \<le> min 100000 (length (rows t3)) \<and>
         length (rows s4) \<le> min 100000 (length (rows t4))"
    using e f1 f2 f3 f4
      capped_rows[of k t1] capped_rows[of k t2] capped_rows[of k t3] capped_rows[of k t4]
    by blast
qed

theorem cap_invariant_witness:
  "(files demo_world (out_path ''consumer_sample'') = Some (capped_sample demo_sampler people) \<or>
      length (rows (capped_sample demo_sampler people)) \<le> 100000)
   \<and> (files demo_world ''out'' =
        Some (Table (columns people) (take 1 (bernoulli demo_sampler frac seed 0 (rows people)))) \<or>
      length (rows (Table (columns people)
        (take 1 (bernoulli demo_sampler frac seed 0 (rows people))))) \<le> 1)
   \<and> length (rows (Table (columns people) (take 1 (bernoulli demo_sampler frac seed 0 (rows people)))))
      \<le> min 1 (length (rows people))
   \<and> (\<exists>w' s1 s2 s3 s4. main demo_sampler demo_world = (None, w') \<and>
         files w' (out_path ''order_sample'') = Some s1 \<and>
         files w' (out_path ''consumer_sample'') = Some s2 \<and>
         files w' (out_path ''restaurant_sample'') = Some s3 \<and>
         files w' (out_path ''ab_test_sample'') = Some s4 \<and>
         length (rows s1) \<le> min 100000 (length (rows orders)) \<and>
         length (rows s2) \<le> min 100000 (length (rows people)) \<and>
         length (rows s3) \<le> min 100000 (length (rows no_rows)) \<and>
         length (rows s4) \<le> min 100000 (length (rows people)))"
proof -
  let ?d0 = "Read CSV ''data/raw/consumer/consumer.csv'' (columns people)"
  let ?smp = "Table (columns people) (take 1 (bernoulli demo_sampler frac seed 0 (rows people)))"
  have f: "files demo_world ''data/raw/order/order.json'' = Some orders \<and>
      files demo_world ''data/raw/consumer/consumer.csv'' = Some people \<and>
      files demo_world ''data/raw/restaurant/restaurant.csv'' = Some no_rows \<and>
      files demo_world ''data/raw/ab_test_ref/ab_test_ref.csv'' = Some people \<and>
      profilable orders \<and> profilable people \<and> profilable no_rows \<and> profilable people"
    by (simp add: demo_world_def profilable_examples)
  have c: "collect demo_sampler (files demo_world) ?d0 = Inr people \<and>
      collect demo_sampler (files demo_world) (Limit 1 (Sample frac seed ?d0)) = Inr ?smp"
    by (simp add: demo_world_def)
  have m: "main demo_sampler demo_world = (None, demo_world\<lparr>files := (files demo_world)
               (out_path ''order_sample'' \<mapsto> capped_sample demo_sampler orders,
                out_path ''consumer_sample'' \<mapsto> capped_sample demo_sampler people,
                out_path ''restaurant_sample'' \<mapsto> capped_sample demo_sampler no_rows,
                out_path ''ab_test_sample'' \<mapsto> capped_sample demo_sampler people),
             stdout := stdout demo_world
               @ Written (out_path ''order_sample'') # spec_profile (capped_sample demo_sampler orders) ''order_sample'' 10
               @ Written (out_path ''consumer_sample'') # spec_profile (capped_sample demo_sampler people) ''consumer_sample'' 10
               @ Written (out_path ''restaurant_sample'') # spec_profile (capped_sample demo_sampler no_rows) ''restaurant_sample'' 10
               @ Written (out_path ''ab_test_sample'') # spec_profile (capped_sample demo_sampler people) ''ab_test_sample'' 10\<rparr>)"
    using f by (intro main_result) simp_all
  have h1: "files (snd (main demo_sampler demo_world)) (out_path ''consumer_sample'') =
      Some (capped_sample demo_sampler people)"
    unfolding m by (simp add: out_path_def)
  have h2: "files (snd (write_parquet demo_sampler demo_world (Limit 1 (Sample frac seed ?d0)) ''out''))
      ''out'' = Some ?smp"
    by (simp add: write_parquet_def demo_world_def people_def)
  note t = cap_invariant[of demo_sampler demo_world "out_path ''consumer_sample''"
      "capped_sample demo_sampler people" demo_world 1 "Sample frac seed ?d0" "''out''" "''out''" ?smp
      "files demo_world" ?d0 people frac seed ?smp orders people no_rows people]
  from t[THEN conjunct1] h1
  have a1: "files demo_world (out_path ''consumer_sample'') = Some (capped_sample demo_sampler people) \<or>
      length (rows (capped_sample demo_sampler people)) \<le> 100000"
    by (rule mp)
  from t[THEN conjunct2, THEN conjunct1] h2
  have a2: "files demo_world ''out'' = Some ?smp \<or> length (rows ?smp) \<le> 1"
    by (rule mp)
  from t[THEN conjunct2, THEN conjunct2, THEN conjunct1] c
  have a3: "length (rows ?smp) \<le> min 1 (length (rows people))" by (rule mp)
  from t[THEN conjunct2, THEN conjunct2, THEN conjunct2] f
  have a4: "\<exists>w' s1 s2 s3 s4. main demo_sampler demo_world = (None, w') \<and>
         files w' (out_path ''order_sample'') = Some s1 \<and>
         files w' (out_path ''consumer_sample'') = Some s2 \<and>
         files w' (out_path ''restaurant_sample'') = Some s3 \<and>
         files w' (out_path ''ab_test_sample'') = Some s4 \<and>
         length (rows s1) \<le> min 100000 (length (rows orders)) \<and>
         length (rows s2) \<le> min 100000 (length (rows people)) \<and>
         length (rows s3) \<le> min 100000 (length (rows no_rows)) \<and>
         length (rows s4) \<le> min 100000 (length (rows people))"
    by (rule mp)
  from a1 a2 a3 a4 show ?thesis by (intro conjI)
qed

subsection \<open>Nulls and non-nulls add up\<close>

text \<open>
  C4. For a frame that evaluates to the table \<open>t\<close> and any column on which the
  profiler's aggregate goes through, the profiler's locals satisfy
  \<open>nulls + non_null = n\<close>, where \<open>n\<close> is the row count of \<open>t\<close>; \<open>non_null\<close> is the
  number of non-null cells of the column in \<open>t\<close> and \<open>nulls\<close> the number of its null
  cells.
\<close>

theorem null_count_consistency:
  assumes "collect k fs d = Inr t" and "analysable (columns t) c"
  shows "\<exists>non_null dist nulls.
    df_count k fs d = Inr (row_count t) \<and>
    profile_column k fs d (row_count t) c = Inr (non_null, dist, nulls) \<and>
    nulls + non_null = row_count t \<and>
    non_null = non_null_count t c \<and> nulls = null_count t c \<and> 0 \<le> nulls"
proof -
  have len: "length (col_values t c) = length (rows t)" by (simp add: col_values_def)
  have "profile_column k fs d (row_count t) c =
      Inr (non_null_count t c, distinct_count t c, null_count t c)"
    by (rule profile_column_exact[OF assms])
  moreover have "null_count t c + non_null_count t c = row_count t"
    using profile_counts[of "col_values t c"]
    by (simp add: row_count_def null_count_def non_null_count_def F_count_def len)
  moreover have "df_count k fs d = Inr (row_count t)"
    using assms(1) by (simp add: df_count_def row_count_def)
  ultimately show ?thesis by (simp add: null_count_def)
qed

theorem null_count_consistency_witness:
  "\<exists>non_null dist nulls.
    df_count demo_sampler (files demo_world)
      (Read CSV ''data/raw/consumer/consumer.csv'' (columns people)) = Inr (row_count people) \<and>
    profile_column demo_sampler (files demo_world)
      (Read CSV ''data/raw/consumer/consumer.csv'' (columns people)) (row_count people) ''age''
      = Inr (non_null, dist, nulls) \<and>
    nulls + non_null = row_count people \<and>
    non_null = non_null_count people ''age'' \<and> nulls = null_count people ''age'' \<and> 0 \<le> nulls"
proof (rule null_count_consistency)
  show "collect demo_sampler (files demo_world)
      (Read CSV ''data/raw/consumer/consumer.csv'' (columns people)) = Inr people"
    by (simp add: demo_world_def)
  show "analysable (columns people) ''age''"
    by (simp add: analysable_def people_def)
qed

subsection \<open>What the profiler counts\<close>

text \<open>
  C5, as amended. For each analysed column (one on which the aggregate goes through) the
  profiler computes the exact number of non-null cells, the exact number of different
  non-null values (null is not one of them; it is tracked by the null count) and the
  nulls. For a table with the header \<open>id,name,age\<close> and three rows in which exactly one
  \<open>age\<close> cell is null, it reports \<open>nulls = 1\<close>, and \<open>distinct = 2\<close> when the two
  non-null ages differ, \<open>distinct = 1\<close> when they are equal.
\<close>

theorem age_profile:
  "(collect k fs d = Inr t \<and> analysable (columns t) c \<longrightarrow>
      profile_column k fs d (row_count t) c =
        Inr (non_null_count t c, distinct_count t c, null_count t c))
   \<and> (collect k fs d = Inr t \<and> columns t = [''id'', ''name'', ''age''] \<and> length (rows t) = 3 \<and>
      length (filter (\<lambda>v. v = None) (col_values t ''age'')) = 1 \<longrightarrow>
      profile_column k fs d (row_count t) ''age'' =
        Inr (2, (if distinct (filter (\<lambda>v. v \<noteq> None) (col_values t ''age'')) then 2 else 1), 1))"
proof (intro conjI impI)
  assume "collect k fs d = Inr t \<and> analysable (columns t) c"
  then show "profile_column k fs d (row_count t) c =
        Inr (non_null_count t c, distinct_count t c, null_count t c)"
    using profile_column_exact[of k fs d t c] by blast
next
  assume a: "collect k fs d = Inr t \<and> columns t = [''id'', ''name'', ''age''] \<and>
      length (rows t) = 3 \<and> length (filter (\<lambda>v. v = None) (col_values t ''age'')) = 1"
  let ?vs = "col_values t ''age''"
  let ?nn = "filter (\<lambda>v. v \<noteq> None) ?vs"
  have an: "analysable (columns t) ''age''" using a by (simp add: analysable_def)
  have len: "length ?vs = 3" using a by (simp add: col_values_def)
  have "length (filter (\<lambda>v. v = None) ?vs) + length ?nn = length ?vs"
    by (rule sum_length_filter_compl)
  then have l2: "length ?nn = 2" using a len by simp
  have s: "set ?vs - {None} = set ?nn" by auto
  have nn: "non_null_count t ''age'' = 2" using l2 by (simp add: non_null_count_def)
  have nl: "null_count t ''age'' = 1" using a by (simp add: null_count_def)
  have dc: "distinct_count t ''age'' = (if distinct ?nn then 2 else 1)"
    unfolding distinct_count_def s by (rule two_values[OF l2])
  have c: "collect k fs d = Inr t" using a by (rule conjunct1)
  show "profile_column k fs d (row_count t) ''age'' =
        Inr (2, (if distinct ?nn then 2 else 1), 1)"
    using profile_column_exact[OF c an] by (simp only: nn nl dc)
qed

theorem age_profile_witness:
  "profile_column demo_sampler (files demo_world)
      (Read CSV ''data/raw/consumer/consumer.csv'' (columns people)) (row_count people) ''name'' =
   Inr (non_null_count people ''name'', distinct_count people ''name'', null_count people ''name'')
   \<and> profile_column demo_sampler (files demo_world)
      (Read CSV ''data/raw/consumer/consumer.csv'' (columns people)) (row_count people) ''age'' =
   Inr (2, 2, 1)"
proof -
  let ?d = "Read CSV ''data/raw/consumer/consumer.csv'' (columns people)"
  have c: "collect demo_sampler (files demo_world) ?d = Inr people"
    by (simp add: demo_world_def)
  have an: "analysable (columns people) ''name''"
    by (simp add: analysable_def people_def)
  have h: "columns people = [''id'', ''name'', ''age''] \<and> length (rows people) = 3 \<and>
      length (filter (\<lambda>v. v = None) (col_values people ''age'')) = 1"
    by (simp add: people_def col_values_def)
  have d: "distinct (filter (\<lambda>v. v \<noteq> None) (col_values people ''age''))"
    by (simp add: people_def col_values_def)
  note t = age_profile[of demo_sampler "files demo_world" ?d people "''name''"]
  from t[THEN conjunct1] c an
  have a: "profile_column demo_sampler (files demo_world) ?d (row_count people) ''name'' =
      Inr (non_null_count people ''name'', distinct_count people ''name'', null_count people ''name'')"
    by blast
  from t[THEN conjunct2] c h
  have "profile_column demo_sampler (files demo_world) ?d (row_count people) ''age'' =
      Inr (2, (if distinct (filter (\<lambda>v. v \<noteq> None) (col_values people ''age'')) then 2 else 1), 1)"
    by blast
  then have b: "profile_column demo_sampler (files demo_world) ?d (row_count people) ''age'' =
      Inr (2, 2, 1)"
    by (simp only: d if_True)
  from a b show ?thesis by (rule conjI)
qed

text \<open>
  C5 as stated fails: header \<open>id,name,age\<close>, three rows, exactly one empty \<open>age\<close>
  cell, and the two other ages equal; the profiler reports \<open>age: nulls=1, distinct=1\<close>.
\<close>

theorem age_distinct_counterexample:
  "columns same_age = [''id'', ''name'', ''age''] \<and> length (rows same_age) = 3 \<and>
   length (filter (\<lambda>v. v = None) (col_values same_age ''age'')) = 1 \<and>
   quick_profile demo_sampler same_age_world
     (Read CSV ''data/raw/consumer/consumer.csv'' [''id'', ''name'', ''age'']) ''consumer_sample'' 10 =
   (None, same_age_world\<lparr>stdout :=
      [Header ''consumer_sample'' 3, ColLine ''id'' 0 3, ColLine ''name'' 0 3, ColLine ''age'' 1 1]\<rparr>)"
  by (simp add: same_age_def same_age_world_def quick_profile_def df_count_def profile_column_def
      df_agg_def F_col_def F_count_def F_countDistinct_def col_values_def slice_to_def print_def)

subsection \<open>The first K columns\<close>




subsection \<open>An empty raw table\<close>

text \<open>
  C7, as amended. When a raw CSV file holds a table without rows that has a column and can
  be profiled (a file with a header only), reading it succeeds and the turn of the loop
  for that dataset ends without error: the artifact written has the columns of the raw
  table and no rows, and the profile printed is the row count 0 and, for each of the first
  ten columns, 0 nulls and 0 distinct values. A source without columns (an empty JSON
  file, a CSV file of zero bytes) is read, but the write of its sample raises and nothing
  is written or profiled.
\<close>

theorem empty_table:
  "(files w p = Some t \<and> rows t = [] \<and> profilable t \<and> p \<noteq> out_path nm \<longrightarrow>
      (\<exists>d. spark_read (files w) CSV p = Inr d \<and>
        sample_step k w (nm, Sample f s d) =
          (None, w\<lparr>files := (files w)(out_path nm \<mapsto> Table (columns t) []),
                   stdout := stdout w @ Written (out_path nm) # Header nm 0 #
                     map (\<lambda>c. ColLine c 0 0) (take 10 (columns t))\<rparr>)))
   \<and> (files w p = Some t \<and> columns t = [] \<longrightarrow>
      (\<exists>d. spark_read (files w) fm p = Inr d \<and>
        sample_step k w (nm, Sample f s d) = (Some EmptySchema, w)))"
proof (intro conjI impI)
  assume a: "files w p = Some t \<and> rows t = [] \<and> profilable t \<and> p \<noteq> out_path nm"
  let ?d = "Read CSV p (columns t)"
  have r: "spark_read (files w) CSV p = Inr ?d"
    using a by (simp add: spark_read_def)
  have c: "collect k (files w) (Limit 100000 (Sample f s ?d)) = Inr (Table (columns t) [])"
    using a by simp
  have n: "src_path (Sample f s ?d) \<noteq> out_path nm" using a by simp
  have p: "profilable (Table (columns t) [])" using a by (simp add: profilable_def)
  from sample_step_ok[OF c n p] r
  show "\<exists>d. spark_read (files w) CSV p = Inr d \<and>
        sample_step k w (nm, Sample f s d) =
          (None, w\<lparr>files := (files w)(out_path nm \<mapsto> Table (columns t) []),
                   stdout := stdout w @ Written (out_path nm) # Header nm 0 #
                     map (\<lambda>c. ColLine c 0 0) (take 10 (columns t))\<rparr>)"
    by (simp add: spec_profile_empty)
next
  assume a: "files w p = Some t \<and> columns t = []"
  let ?d = "Read fm p (columns t)"
  have r: "spark_read (files w) fm p = Inr ?d"
    using a by (simp add: spark_read_def)
  have "sample_step k w (nm, Sample f s ?d) = (Some EmptySchema, w)"
    using a by (simp add: sample_step_def write_parquet_def)
  with r show "\<exists>d. spark_read (files w) fm p = Inr d \<and>
        sample_step k w (nm, Sample f s d) = (Some EmptySchema, w)"
    by blast
qed

theorem empty_table_witness:
  "(\<exists>d. spark_read (files demo_world) CSV ''data/raw/restaurant/restaurant.csv'' = Inr d \<and>
      sample_step demo_sampler demo_world (''restaurant_sample'', Sample frac seed d) =
        (None, demo_world\<lparr>files := (files demo_world)
                   (out_path ''restaurant_sample'' \<mapsto> Table (columns no_rows) []),
                 stdout := stdout demo_world @ Written (out_path ''restaurant_sample'') #
                   Header ''restaurant_sample'' 0 #
                   map (\<lambda>c. ColLine c 0 0) (take 10 (columns no_rows))\<rparr>))
   \<and> (\<exists>d. spark_read (files empty_json_world) JSON ''data/raw/order/order.json'' = Inr d \<and>
      sample_step demo_sampler empty_json_world (''order_sample'', Sample frac seed d) =
        (Some EmptySchema, empty_json_world))"
proof -
  have h1: "files demo_world ''data/raw/restaurant/restaurant.csv'' = Some no_rows \<and>
      rows no_rows = [] \<and> profilable no_rows \<and>
      ''data/raw/restaurant/restaurant.csv'' \<noteq> out_path ''restaurant_sample''"
    by (simp add: demo_world_def no_rows_def profilable_def analysable_def out_path_def out_base_def)
  have h2: "files empty_json_world ''data/raw/order/order.json'' = Some (Table [] []) \<and>
      columns (Table [] [] :: string table) = []"
    by (simp add: empty_json_world_def)
  from empty_table[of demo_world "''data/raw/restaurant/restaurant.csv''" no_rows
      "''restaurant_sample''" demo_sampler frac seed, THEN conjunct1] h1
  have a: "\<exists>d. spark_read (files demo_world) CSV ''data/raw/restaurant/restaurant.csv'' = Inr d \<and>
      sample_step demo_sampler demo_world (''restaurant_sample'', Sample frac seed d) =
        (None, demo_world\<lparr>files := (files demo_world)
                   (out_path ''restaurant_sample'' \<mapsto> Table (columns no_rows) []),
                 stdout := stdout demo_world @ Written (out_path ''restaurant_sample'') #
                   Header ''restaurant_sample'' 0 #
                   map (\<lambda>c. ColLine c 0 0) (take 10 (columns no_rows))\<rparr>)"
    by (rule mp)
  from empty_table[of empty_json_world "''data/raw/order/order.json''" "Table [] []"
      "''order_sample''" demo_sampler frac seed JSON, THEN conjunct2] h2
  have b: "\<exists>d. spark_read (files empty_json_world) JSON ''data/raw/order/order.json'' = Inr d \<and>
      sample_step demo_sampler empty_json_world (''order_sample'', Sample frac seed d) =
        (Some EmptySchema, empty_json_world)"
    by (rule mp)
  from a b show ?thesis by (rule conjI)
qed

text \<open>
  C7 as stated fails: \<open>order.json\<close> is an empty file (no rows, hence no columns), the
  three other raw files are there; the run ends with the writer's exception at the first
  dataset, and no artifact is written and nothing is printed.
\<close>

theorem empty_json_counterexample:
  "files empty_json_world ''data/raw/order/order.json'' = Some (Table [] []) \<and>
   main demo_sampler empty_json_world = (Some EmptySchema, empty_json_world) \<and>
   files (snd (main demo_sampler empty_json_world)) (out_path ''order_sample'') = None \<and>
   stdout (snd (main demo_sampler empty_json_world)) = []"
proof -
  have p: "the (paths ''order'') = ''data/raw/order/order.json''"
    "the (paths ''consumer'') = ''data/raw/consumer/consumer.csv''"
    "the (paths ''restaurant'') = ''data/raw/restaurant/restaurant.csv''"
    "the (paths ''ab_test'') = ''data/raw/ab_test_ref/ab_test_ref.csv''"
    by (simp_all add: paths_def)
  have f: "files empty_json_world ''data/raw/order/order.json'' = Some (Table [] [])"
    "files empty_json_world ''data/raw/consumer/consumer.csv'' = Some people"
    "files empty_json_world ''data/raw/restaurant/restaurant.csv'' = Some no_rows"
    "files empty_json_world ''data/raw/ab_test_ref/ab_test_ref.csv'' = Some people"
    by (simp_all add: empty_json_world_def)
  have r: "spark_read (files empty_json_world) JSON ''data/raw/order/order.json'' =
      Inr (Read JSON ''data/raw/order/order.json'' [])"
    "spark_read (files empty_json_world) CSV ''data/raw/consumer/consumer.csv'' =
      Inr (Read CSV ''data/raw/consumer/consumer.csv'' (columns people))"
    "spark_read (files empty_json_world) CSV ''data/raw/restaurant/restaurant.csv'' =
      Inr (Read CSV ''data/raw/restaurant/restaurant.csv'' (columns no_rows))"
    "spark_read (files empty_json_world) CSV ''data/raw/ab_test_ref/ab_test_ref.csv'' =
      Inr (Read CSV ''data/raw/ab_test_ref/ab_test_ref.csv'' (columns people))"
    by (simp_all add: spark_read_def f)
  have s: "sample_step demo_sampler empty_json_world
      (''order_sample'', Sample frac seed (Read JSON ''data/raw/order/order.json'' [])) =
      (Some EmptySchema, empty_json_world)"
    by (simp add: sample_step_def write_parquet_def)
  have m: "main demo_sampler empty_json_world = (Some EmptySchema, empty_json_world)"
    unfolding main_def p r by (simp only: sum.case samples_loop.simps s prod.case option.case)
  have o: "files empty_json_world (out_path ''order_sample'') = None"
    by (simp add: empty_json_world_def out_path_def out_base_def)
  have e: "stdout empty_json_world = []" by (simp add: empty_json_world_def)
  show ?thesis
    by (simp only: m f o e snd_conv simp_thms)
qed

subsection \<open>A missing raw file\<close>

text \<open>
  C8, as amended. The four raw files are read before any dataset is processed and nothing
  catches the reader's exception: when one of them is missing, \<open>main\<close> ends with the
  exception for a missing path and leaves the world as it found it. No dataset, the
  other three included, is sampled, written or profiled.
\<close>

theorem missing_file_aborts_run:
  assumes "files w ''data/raw/order/order.json'' = None \<or>
    files w ''data/raw/consumer/consumer.csv'' = None \<or>
    files w ''data/raw/restaurant/restaurant.csv'' = None \<or>
    files w ''data/raw/ab_test_ref/ab_test_ref.csv'' = None"
  shows "\<exists>p. files w p = None \<and>
     (p = ''data/raw/order/order.json'' \<or> p = ''data/raw/consumer/consumer.csv'' \<or>
      p = ''data/raw/restaurant/restaurant.csv'' \<or> p = ''data/raw/ab_test_ref/ab_test_ref.csv'') \<and>
     main k w = (Some (AnalysisException p), w)"
proof -
  from main_abort[OF assms, of k] obtain p where
    p: "p \<in> {''data/raw/order/order.json'', ''data/raw/consumer/consumer.csv'',
       ''data/raw/restaurant/restaurant.csv'', ''data/raw/ab_test_ref/ab_test_ref.csv''}"
    and q: "files w p = None \<and> main k w = (Some (AnalysisException p), w)"
    by (elim bexE)
  from p have "p = ''data/raw/order/order.json'' \<or> p = ''data/raw/consumer/consumer.csv'' \<or>
      p = ''data/raw/restaurant/restaurant.csv'' \<or> p = ''data/raw/ab_test_ref/ab_test_ref.csv''"
    by (simp only: insert_iff empty_iff simp_thms)
  with q show ?thesis by (intro exI[of _ p]) (simp only: simp_thms)
qed

theorem missing_file_aborts_run_witness:
  "\<exists>p. files no_order_world p = None \<and>
     (p = ''data/raw/order/order.json'' \<or> p = ''data/raw/consumer/consumer.csv'' \<or>
      p = ''data/raw/restaurant/restaurant.csv'' \<or> p = ''data/raw/ab_test_ref/ab_test_ref.csv'') \<and>
     main demo_sampler no_order_world = (Some (AnalysisException p), no_order_world)"
proof (rule missing_file_aborts_run)
  have "files no_order_world ''data/raw/order/order.json'' = None"
    by (simp add: no_order_world_def)
  then show "files no_order_world ''data/raw/order/order.json'' = None \<or>
    files no_order_world ''data/raw/consumer/consumer.csv'' = None \<or>
    files no_order_world ''data/raw/restaurant/restaurant.csv'' = None \<or>
    files no_order_world ''data/raw/ab_test_ref/ab_test_ref.csv'' = None"
    by (rule disjI1)
qed

text \<open>
  C8 as stated fails: with \<open>order.json\<close> missing and the three other raw files in
  place, the run ends with the exception, prints nothing and writes no artifact for
  \<open>consumer\<close>.
\<close>

theorem skip_and_continue_counterexample:
  "files no_order_world ''data/raw/order/order.json'' = None \<and>
   files no_order_world ''data/raw/consumer/consumer.csv'' = Some people \<and>
   main demo_sampler no_order_world =
     (Some (AnalysisException ''data/raw/order/order.json''), no_order_world) \<and>
   files (snd (main demo_sampler no_order_world)) (out_path ''consumer_sample'') = None \<and>
   stdout (snd (main demo_sampler no_order_world)) = []"
proof -
  have p: "the (paths ''order'') = ''data/raw/order/order.json''"
    by (simp add: paths_def)
  have f: "files no_order_world ''data/raw/order/order.json'' = None"
    by (simp add: no_order_world_def)
  have g: "files no_order_world ''data/raw/consumer/consumer.csv'' = Some people"
    by (simp add: no_order_world_def)
  have r: "spark_read (files no_order_world) JSON ''data/raw/order/order.json'' =
      Inl (AnalysisException ''data/raw/order/order.json'')"
    by (simp add: spark_read_def f)
  have m: "main demo_sampler no_order_world =
     (Some (AnalysisException ''data/raw/order/order.json''), no_order_world)"
    unfolding main_def p r by (simp only: sum.case)
  have o: "files no_order_world (out_path ''consumer_sample'') = None"
    by (simp add: no_order_world_def out_path_def out_base_def)
  have s: "stdout no_order_world = []"
    by (simp add: no_order_world_def)
  show ?thesis
    by (simp only: m f g o s snd_conv simp_thms)
qed

section \<open>Properties of the downloader\<close>

subsection \<open>Auxiliary lemmas\<close>

lemma write_chunks_files:
  "dl_files w dest = Some old \<Longrightarrow>
   dl_files (write_chunks w dest cs) = (dl_files w)(dest \<mapsto> old @ concat cs)"
proof (induction cs arbitrary: w old)
  case Nil
  then show ?case by (simp add: fun_upd_idem)
next
  case (Cons c cs)
  show ?case
  proof (cases "c = []")
    case True
    then show ?thesis using Cons.IH[OF Cons.prems] by simp
  next
    case False
    let ?w = "dl_print (Update (length c)) (f_write dest c w)"
    have "dl_files ?w dest = Some (old @ c)"
      using Cons.prems by (simp add: dl_print_def f_write_def)
    from Cons.IH[OF this] have "dl_files (write_chunks ?w dest cs) =
        (dl_files ?w)(dest \<mapsto> (old @ c) @ concat cs)" .
    moreover have "(dl_files ?w)(dest \<mapsto> (old @ c) @ concat cs) =
        (dl_files w)(dest \<mapsto> old @ concat (c # cs))"
      by (simp add: dl_print_def f_write_def)
    ultimately show ?thesis using False by simp
  qed
qed

lemma download_file_http_error:
  assumes "net u = Some r" and "400 \<le> status r" and "status r < 600"
  shows "download_file net w u dest n = (Some (HTTPError (status r)), w)"
  using assms by (simp add: download_file_def raise_for_status_def)

lemma download_file_ok:
  assumes "net u = Some r" and "raise_for_status r = None"
    and "content_length r \<noteq> Malformed" and "\<not> broken r"
  shows "\<exists>w'. download_file net w u dest n = (None, w') \<and>
     dl_files w' = (dl_files w)(dest \<mapsto> concat (iter_content r n))"
proof -
  let ?total = "case content_length r of Numeric n \<Rightarrow> n | _ \<Rightarrow> 0"
  let ?w2 = "open_wb dest (dl_print (Bar (path_name dest) ?total) w)"
  let ?w3 = "write_chunks ?w2 dest (iter_content r n)"
  have o: "dl_files ?w2 dest = Some []" by (simp add: open_wb_def)
  have "dl_files ?w3 = (dl_files ?w2)(dest \<mapsto> [] @ concat (iter_content r n))"
    by (rule write_chunks_files[OF o])
  then have f: "dl_files ?w3 = (dl_files w)(dest \<mapsto> concat (iter_content r n))"
    by (simp add: open_wb_def dl_print_def)
  have "download_file net w u dest n = (None, ?w3)"
    using assms by (cases "content_length r") (simp_all add: download_file_def Let_def)
  with f show ?thesis by blast
qed

lemma files_consumer: "FILES = [(''consumer.csv.gz'', consumer_url)]"
  by (simp add: FILES_def consumer_url_def)

subsection \<open>A failed transfer\<close>

text \<open>
  C9, as amended. The table of resources holds one resource. A response to it with a
  status from 400 to 599 is a hard stop: \<open>download_file\<close> raises before the destination
  is opened, nothing is written, and the error leaves \<open>main\<close> for the operator to see.
  Any other status that reaches the code, a non-2xx one such as 304 included, is not a
  failure: when the content-length header is usable and the stream ends, the body is
  saved at the destination and the success line is printed.
\<close>

theorem http_status_handling:
  "FILES = [(''consumer.csv.gz'', consumer_url)]
   \<and> (net consumer_url = Some r \<and> 400 \<le> status r \<and> status r < 600 \<longrightarrow>
        download_main net w =
          (Some (HTTPError (status r)), dl_print (Baixando ''consumer.csv.gz'') w))
   \<and> (net consumer_url = Some r \<and> \<not> (400 \<le> status r \<and> status r < 600) \<and>
      content_length r \<noteq> Malformed \<and> \<not> broken r \<longrightarrow>
        (\<exists>w2. download_main net w = (None, dl_print (Salvo ''data/raw/consumer.csv.gz'') w2) \<and>
           dl_files w2 = (dl_files w)(''data/raw/consumer.csv.gz'' \<mapsto>
             concat (iter_content r default_chunk_size))))"
proof (intro conjI impI)
  show "FILES = [(''consumer.csv.gz'', consumer_url)]" by (rule files_consumer)
next
  assume a: "net consumer_url = Some r \<and> 400 \<le> status r \<and> status r < 600"
  have "download_file net (dl_print (Baixando ''consumer.csv.gz'') w) consumer_url
      (raw_dir @ ''/'' @ ''consumer.csv.gz'') default_chunk_size =
      (Some (HTTPError (status r)), dl_print (Baixando ''consumer.csv.gz'') w)"
    using a by (intro download_file_http_error) simp_all
  then show "download_main net w =
      (Some (HTTPError (status r)), dl_print (Baixando ''consumer.csv.gz'') w)"
    by (simp add: download_main_def files_consumer Let_def)
next
  assume a: "net consumer_url = Some r \<and> \<not> (400 \<le> status r \<and> status r < 600) \<and>
      content_length r \<noteq> Malformed \<and> \<not> broken r"
  have n: "net consumer_url = Some r" using a by (rule conjunct1)
  have s: "raise_for_status r = None" using a by (simp add: raise_for_status_def)
  have c: "content_length r \<noteq> Malformed" using a by blast
  have b: "\<not> broken r" using a by blast
  from download_file_ok[of net consumer_url r "dl_print (Baixando ''consumer.csv.gz'') w"
      "raw_dir @ ''/'' @ ''consumer.csv.gz''" default_chunk_size, OF n s c b]
  obtain w2 where
    d: "download_file net (dl_print (Baixando ''consumer.csv.gz'') w) consumer_url
      (raw_dir @ ''/'' @ ''consumer.csv.gz'') default_chunk_size = (None, w2)"
    and f: "dl_files w2 = (dl_files (dl_print (Baixando ''consumer.csv.gz'') w))
      (raw_dir @ ''/'' @ ''consumer.csv.gz'' \<mapsto> concat (iter_content r default_chunk_size))"
    by (elim exE conjE)
  have m: "download_main net w = (None, dl_print (Salvo ''data/raw/consumer.csv.gz'') w2)"
    using d by (simp add: download_main_def files_consumer Let_def raw_dir_def)
  have g: "dl_files w2 = (dl_files w)(''data/raw/consumer.csv.gz'' \<mapsto>
      concat (iter_content r default_chunk_size))"
    using f by (simp add: dl_print_def raw_dir_def)
  from m g show "\<exists>w2. download_main net w =
      (None, dl_print (Salvo ''data/raw/consumer.csv.gz'') w2) \<and>
      dl_files w2 = (dl_files w)(''data/raw/consumer.csv.gz'' \<mapsto>
        concat (iter_content r default_chunk_size))"
    by blast
qed

theorem http_status_handling_witness:
  "download_main net_404 dl_empty =
      (Some (HTTPError 404), dl_print (Baixando ''consumer.csv.gz'') dl_empty)
   \<and> (\<exists>w2. download_main net_304 dl_empty =
        (None, dl_print (Salvo ''data/raw/consumer.csv.gz'') w2) \<and>
      dl_files w2 = (dl_files dl_empty)(''data/raw/consumer.csv.gz'' \<mapsto> []))"
proof -
  have h1: "net_404 consumer_url = Some not_found \<and> 400 \<le> status not_found \<and>
      status not_found < 600"
    by (simp add: net_404_def not_found_def)
  have h2: "net_304 consumer_url = Some not_modified \<and>
      \<not> (400 \<le> status not_modified \<and> status not_modified < 600) \<and>
      content_length not_modified \<noteq> Malformed \<and> \<not> broken not_modified"
    by (simp add: net_304_def not_modified_def)
  have s: "status not_found = 404" by (simp add: not_found_def)
  have c: "concat (iter_content not_modified default_chunk_size) = []"
    by (simp add: not_modified_def)
  from http_status_handling[of net_404 not_found dl_empty, THEN conjunct2, THEN conjunct1] h1
  have "download_main net_404 dl_empty =
      (Some (HTTPError (status not_found)), dl_print (Baixando ''consumer.csv.gz'') dl_empty)"
    by (rule mp)
  then have a: "download_main net_404 dl_empty =
      (Some (HTTPError 404), dl_print (Baixando ''consumer.csv.gz'') dl_empty)"
    by (simp only: s)
  from http_status_handling[of net_304 not_modified dl_empty, THEN conjunct2, THEN conjunct2] h2
  have "\<exists>w2. download_main net_304 dl_empty =
        (None, dl_print (Salvo ''data/raw/consumer.csv.gz'') w2) \<and>
      dl_files w2 = (dl_files dl_empty)(''data/raw/consumer.csv.gz'' \<mapsto>
        concat (iter_content not_modified default_chunk_size))"
    by (rule mp)
  then have b: "\<exists>w2. download_main net_304 dl_empty =
        (None, dl_print (Salvo ''data/raw/consumer.csv.gz'') w2) \<and>
      dl_files w2 = (dl_files dl_empty)(''data/raw/consumer.csv.gz'' \<mapsto> [])"
    by (simp only: c)
  from a b show ?thesis by (rule conjI)
qed

text \<open>
  C9 as stated fails on the table as it is: to the non-2xx response 304 the run answers
  with no error at all; it creates the destination file, prints that the file was saved
  and ends normally.
\<close>

theorem not_modified_counterexample:
  "status not_modified = 304 \<and> net_304 consumer_url = Some not_modified \<and>
   download_main net_304 dl_empty =
     (None, \<lparr>dl_files = [''data/raw/consumer.csv.gz'' \<mapsto> []],
             dl_out = [Baixando ''consumer.csv.gz'', Bar ''consumer.csv.gz'' 0,
                       Salvo ''data/raw/consumer.csv.gz'']\<rparr>)"
proof -
  have s: "status not_modified = 304" by (simp add: not_modified_def)
  have n: "net_304 consumer_url = Some not_modified" by (simp add: net_304_def)
  have r: "raise_for_status not_modified = None"
    by (simp add: raise_for_status_def not_modified_def)
  have cl: "content_length not_modified = Absent" by (simp add: not_modified_def)
  have it: "iter_content not_modified default_chunk_size = []" by (simp add: not_modified_def)
  have br: "broken not_modified = False" by (simp add: not_modified_def)
  have p: "path_name ''data/raw/consumer.csv.gz'' = ''consumer.csv.gz''"
    unfolding path_name_def by simp
  have d: "download_file net_304 (dl_print (Baixando ''consumer.csv.gz'') dl_empty) consumer_url
      ''data/raw/consumer.csv.gz'' default_chunk_size =
      (None, \<lparr>dl_files = [''data/raw/consumer.csv.gz'' \<mapsto> []],
               dl_out = [Baixando ''consumer.csv.gz'', Bar ''consumer.csv.gz'' 0]\<rparr>)"
    by (simp add: download_file_def n r cl it br Let_def dl_print_def open_wb_def
        dl_empty_def p)
  have m: "download_main net_304 dl_empty =
     (None, \<lparr>dl_files = [''data/raw/consumer.csv.gz'' \<mapsto> []],
             dl_out = [Baixando ''consumer.csv.gz'', Bar ''consumer.csv.gz'' 0,
                       Salvo ''data/raw/consumer.csv.gz'']\<rparr>)"
    by (simp add: download_main_def files_consumer Let_def raw_dir_def d)
       (simp add: dl_print_def)
  from s n m show ?thesis by (simp only: simp_thms)
qed

subsection \<open>An interrupted transfer\<close>

text \<open>
  C10. When the status is accepted, the content-length header is usable and the stream
  breaks after some chunks, \<open>download_file\<close> ends with the error and the destination
  path itself holds exactly the bytes of the chunks received: what it held before is gone,
  the file is a prefix of the resource, and no other path (no temporary file) has changed.
\<close>

theorem partial_file_remains:
  assumes "net u = Some r" and "raise_for_status r = None"
    and "content_length r \<noteq> Malformed" and "broken r"
  shows "\<exists>w'. download_file net w u dest n = (Some ChunkedEncodingError, w') \<and>
     dl_files w' = (dl_files w)(dest \<mapsto> concat (iter_content r n))"
proof -
  let ?total = "case content_length r of Numeric n \<Rightarrow> n | _ \<Rightarrow> 0"
  let ?w2 = "open_wb dest (dl_print (Bar (path_name dest) ?total) w)"
  let ?w3 = "write_chunks ?w2 dest (iter_content r n)"
  have o: "dl_files ?w2 dest = Some []" by (simp add: open_wb_def)
  have "dl_files ?w3 = (dl_files ?w2)(dest \<mapsto> [] @ concat (iter_content r n))"
    by (rule write_chunks_files[OF o])
  then have f: "dl_files ?w3 = (dl_files w)(dest \<mapsto> concat (iter_content r n))"
    by (simp add: open_wb_def dl_print_def)
  have "download_file net w u dest n = (Some ChunkedEncodingError, ?w3)"
    using assms by (cases "content_length r") (simp_all add: download_file_def Let_def)
  with f show ?thesis by blast
qed

theorem partial_file_remains_witness:
  "dl_files dl_old ''data/raw/consumer.csv.gz'' = Some ''previous'' \<and>
   (\<exists>w'. download_file net_cut dl_old consumer_url ''data/raw/consumer.csv.gz'' default_chunk_size =
       (Some ChunkedEncodingError, w') \<and>
     dl_files w' = (dl_files dl_old)(''data/raw/consumer.csv.gz'' \<mapsto> ''abc''))"
proof -
  have h1: "net_cut consumer_url = Some cut_off" by (simp add: net_cut_def)
  have h2: "raise_for_status cut_off = None" by (simp add: raise_for_status_def cut_off_def)
  have h3: "content_length cut_off \<noteq> Malformed" by (simp add: cut_off_def)
  have h4: "broken cut_off" by (simp add: cut_off_def)
  have c: "concat (iter_content cut_off default_chunk_size) = ''abc''"
    by (simp add: cut_off_def)
  have o: "dl_files dl_old ''data/raw/consumer.csv.gz'' = Some ''previous''"
    by (simp add: dl_old_def)
  from partial_file_remains[of net_cut consumer_url cut_off dl_old
      "''data/raw/consumer.csv.gz''" default_chunk_size, OF h1 h2 h3 h4]
  obtain w' where
    a: "download_file net_cut dl_old consumer_url ''data/raw/consumer.csv.gz'' default_chunk_size =
       (Some ChunkedEncodingError, w')"
    and b: "dl_files w' = (dl_files dl_old)(''data/raw/consumer.csv.gz'' \<mapsto>
       concat (iter_content cut_off default_chunk_size))"
    by (elim exE conjE)
  have "\<exists>w'. download_file net_cut dl_old consumer_url ''data/raw/consumer.csv.gz'' default_chunk_size =
       (Some ChunkedEncodingError, w') \<and>
     dl_files w' = (dl_files dl_old)(''data/raw/consumer.csv.gz'' \<mapsto> ''abc'')"
    by (rule exI[of _ w']) (simp only: a b[unfolded c] simp_thms)
  with o show ?thesis by (rule conjI)
qed

end
